theory Spec2Isabelle
  imports Main
begin

section \<open>Command routing of the ipfs command line (src/lib/command.go)\<close>

text \<open>
  The development embeds the routing layer of \<^verbatim>\<open>src/lib/command.go\<close>:
  \<^verbatim>\<open>commandDetails\<close>, \<^verbatim>\<open>apiAddrOption\<close>, \<^verbatim>\<open>makeExecutor\<close>, \<^verbatim>\<open>resolveAddr\<close>
  and the argument rewriting at the head of \<^verbatim>\<open>command\<close>.
  Go values returned as \<^verbatim>\<open>(value, error)\<close> are sums with the error on the left.
  Everything the file only imports (the multiaddr parser, the repository's API file,
  the DNS resolver, \<^verbatim>\<open>manet.DialArgs\<close>, \<^verbatim>\<open>fsrepo.IsInitialized\<close>) and every
  package-level value declared elsewhere (\<^verbatim>\<open>cmdDetailsMap\<close>, \<^verbatim>\<open>daemonCmd\<close>,
  \<^verbatim>\<open>corecmds.ApiOption\<close>, \<^verbatim>\<open>corehttp.APIPath\<close>) is a field of the record
  \<open>Deps\<close>, so every theorem holds for all of them.
\<close>

subsection \<open>Data\<close>

text \<open>
  A Go \<^verbatim>\<open>error\<close>. \<^verbatim>\<open>repo.ErrApiNotRunning\<close> is compared by identity in the source
  (\<^verbatim>\<open>switch err\<close>), so it has a constructor of its own; every other error is the value
  of \<^verbatim>\<open>errors.New\<close> or \<^verbatim>\<open>fmt.Errorf\<close> and is known by its message.
\<close>

datatype error = ErrApiNotRunning | ErrorString string

text \<open>A multiaddr is represented by its text, which is what \<^verbatim>\<open>%s\<close> prints.\<close>

type_synonym multiaddr = string

text \<open>A \<^verbatim>\<open>*cmds.Command\<close>: commands are compared by pointer, so a command is its address.\<close>

type_synonym cmd_ptr = nat

text \<open>
  The struct \<^verbatim>\<open>cmdDetails\<close> is declared outside this file; these are the fields the
  source reads. The zero value has every field false.
\<close>

record cmdDetails =
  cannotRunOnClient :: bool
  cannotRunOnDaemon :: bool
  doesNotUseRepo :: bool

text \<open>A value of \<^verbatim>\<open>req.Options\<close>, a \<^verbatim>\<open>map[string]interface{}\<close>.\<close>

datatype optval = OptString string | OptBool bool | OptInt int

record Request =
  Path :: "string list"
  Options :: "string \<rightharpoonup> optval"
  Command :: cmd_ptr
  Root :: cmd_ptr

text \<open>The part of \<^verbatim>\<open>oldcmds.Context\<close> that \<^verbatim>\<open>makeExecutor\<close> reads.\<close>

record Context =
  ConfigRoot :: string

text \<open>
  The \<^verbatim>\<open>http.Client\<close> built for a unix socket: its transport's \<^verbatim>\<open>DialContext\<close> takes
  the network and the address the HTTP layer asks for and answers with the
  \<^verbatim>\<open>net.Dial\<close> call it issues, as the pair of that call's network and address.
\<close>

datatype HTTPClient = HTTPClient (DialContext: "string \<Rightarrow> string \<Rightarrow> string \<times> string")

text \<open>
  \<^verbatim>\<open>cmds.NewExecutor(root)\<close> is the local executor; \<^verbatim>\<open>cmdhttp.NewClient(host, opts...)\<close>
  is the remote one, with its options in the order they were appended.
\<close>

datatype Executor = NewExecutor cmd_ptr | NewClient string "ClientOpt list"
  and ClientOpt =
      ClientWithAPIPrefix string
    | ClientWithFallback Executor
    | ClientWithHTTPClient HTTPClient

text \<open>
  The calls \<^verbatim>\<open>makeExecutor\<close> makes to its collaborators, logged in order, with their
  arguments. The log is what "without invoking" refers to.
\<close>

datatype call =
    CallNewMultiaddr string
  | CallAPIAddr string
  | CallResolve multiaddr
  | CallDialArgs multiaddr
  | CallIsInitialized string

record Deps =
  cmdDetailsMap :: "string \<rightharpoonup> cmdDetails"
  daemonCmd :: cmd_ptr
  ApiOption :: string
  APIPath :: string
  External :: "cmd_ptr \<Rightarrow> bool"
  NewMultiaddr :: "string \<Rightarrow> error + multiaddr"
  APIAddr :: "string \<Rightarrow> error + multiaddr"
  Resolve :: "multiaddr \<Rightarrow> error + multiaddr list"
  DialArgs :: "multiaddr \<Rightarrow> error + string \<times> string"
  IsInitialized :: "string \<Rightarrow> bool"

subsection \<open>Strings\<close>

text \<open>\<^verbatim>\<open>strings.Join(elems, sep)\<close>.\<close>

fun Join :: "string list \<Rightarrow> string \<Rightarrow> string" where
  "Join [] sep = []"
| "Join [x] sep = x"
| "Join (x # y # ys) sep = x @ sep @ Join (y # ys) sep"

text \<open>\<^verbatim>\<open>%v\<close> of a \<^verbatim>\<open>[]string\<close>: the elements between brackets, separated by a space.\<close>

definition fmt_v :: "string list \<Rightarrow> string" where
  "fmt_v xs = ''['' @ Join xs '' '' @ '']''"

subsection \<open>Argument rewriting (command, lines 87 to 111)\<close>

text \<open>
  The rewriting of \<^verbatim>\<open>args\<close> before \<^verbatim>\<open>cli.Run\<close>. \<^verbatim>\<open>args[0] = "ipfs"\<close> on an empty slice
  is an index out of range: the result is \<open>None\<close>.
\<close>

definition command_args :: "string list \<Rightarrow> string list option" where
  "command_args args0 =
     (let args3 =
        (if length args0 > 1 then
           (let args1 = (if args0 ! 1 = ''--version'' then args0[1 := ''version''] else args0)
            in if args1 ! 1 = ''help'' then
                 (if length args1 > 2 then
                    (let args2 = take 1 args1 @ drop 2 args1
                     in if args2 ! 1 \<noteq> ''--help'' then args2 @ [''--help''] else args2)
                  else args1[1 := ''--help''])
               else args1)
         else args0)
      in if args3 = [] then None else Some (args3[0 := ''ipfs'']))"

subsection \<open>Capability lookup (commandDetails)\<close>

definition zeroDetails :: cmdDetails where
  "zeroDetails = \<lparr>cannotRunOnClient = False, cannotRunOnDaemon = False, doesNotUseRepo = False\<rparr>"

definition commandDetails :: "(string \<rightharpoonup> cmdDetails) \<Rightarrow> string list \<Rightarrow> cmdDetails" where
  "commandDetails m path =
     (if length path = 0 then zeroDetails\<lparr>doesNotUseRepo := True\<rparr>
      else fold (\<lambda>i details.
                   case m (Join (take (i + 1) path) ''/'') of
                     Some found \<Rightarrow> found
                   | None \<Rightarrow> details)
                [0..<length path] zeroDetails)"

subsection \<open>The API option and address resolution\<close>

definition apiAddrOption :: "Deps \<Rightarrow> Request \<Rightarrow> (error + multiaddr option) \<times> call list" where
  "apiAddrOption d req =
     (case Options req (ApiOption d) of
        Some (OptString apiAddrStr) \<Rightarrow>
          (case NewMultiaddr d apiAddrStr of
             Inl err \<Rightarrow> (Inl err, [CallNewMultiaddr apiAddrStr])
           | Inr a \<Rightarrow> (Inr (Some a), [CallNewMultiaddr apiAddrStr]))
      | _ \<Rightarrow> (Inr None, []))"

text \<open>
  \<^verbatim>\<open>resolveAddr\<close>. The resolver runs under the ten second deadline of the source; what it
  answers within it, a timeout included, is the value of \<open>Resolve\<close>.
\<close>

definition resolveAddr :: "Deps \<Rightarrow> multiaddr \<Rightarrow> (error + multiaddr) \<times> call list" where
  "resolveAddr d addr =
     (case Resolve d addr of
        Inl err \<Rightarrow> (Inl err, [CallResolve addr])
      | Inr addrs \<Rightarrow>
          (if length addrs = 0
           then (Inl (ErrorString ''non-resolvable API endpoint''), [CallResolve addr])
           else (Inr (addrs ! 0), [CallResolve addr])))"

subsection \<open>Dispatch (makeExecutor)\<close>

text \<open>Lines 227 to 236: with no address from the command line, look for the API file.\<close>

definition repoAPIAddr ::
  "Deps \<Rightarrow> Context \<Rightarrow> multiaddr option \<Rightarrow> (error + multiaddr option) \<times> call list" where
  "repoAPIAddr d cctx apiAddr =
     (if apiAddr = None then
        (case APIAddr d (ConfigRoot cctx) of
           Inr a \<Rightarrow> (Inr (Some a), [CallAPIAddr (ConfigRoot cctx)])
         | Inl err \<Rightarrow>
             (if err = ErrApiNotRunning then (Inr None, [CallAPIAddr (ConfigRoot cctx)])
              else (Inl err, [CallAPIAddr (ConfigRoot cctx)])))
      else (Inr apiAddr, []))"

text \<open>
  Lines 256 to 283: the options, the fallback and the switch on the network of the
  dial arguments. \<open>apiAddr\<close> is the resolved address, \<open>network\<close> and \<open>host\<close> are the
  results of \<^verbatim>\<open>manet.DialArgs\<close>.
\<close>

definition newClient ::
  "Deps \<Rightarrow> Context \<Rightarrow> Executor \<Rightarrow> bool \<Rightarrow> multiaddr \<Rightarrow> string \<Rightarrow> string
     \<Rightarrow> (error + Executor) \<times> call list" where
  "newClient d cctx exe daemonRequested apiAddr network host =
     (let opts0 = [ClientWithAPIPrefix (APIPath d)];
          opts1 = (if \<not> daemonRequested \<and> IsInitialized d (ConfigRoot cctx)
                   then opts0 @ [ClientWithFallback exe] else opts0);
          calls = (if \<not> daemonRequested then [CallIsInitialized (ConfigRoot cctx)] else [])
      in if network = ''tcp'' \<or> network = ''tcp4'' \<or> network = ''tcp6'' then
           (Inr (NewClient host opts1), calls)
         else if network = ''unix'' then
           (let path = host;
                host' = ''unix'';
                opts2 = opts1 @ [ClientWithHTTPClient (HTTPClient (\<lambda>_ _. (''unix'', path)))]
            in (Inr (NewClient host' opts2), calls))
         else (Inl (ErrorString (''unsupported API address: '' @ apiAddr)), calls))"

text \<open>Lines 246 to 254, followed by the construction of the client.\<close>

definition dialDaemon ::
  "Deps \<Rightarrow> Context \<Rightarrow> Executor \<Rightarrow> bool \<Rightarrow> multiaddr \<Rightarrow> (error + Executor) \<times> call list" where
  "dialDaemon d cctx exe daemonRequested apiAddr0 =
     (case resolveAddr d apiAddr0 of
        (Inl err, t1) \<Rightarrow> (Inl err, t1)
      | (Inr apiAddr, t1) \<Rightarrow>
          (case DialArgs d apiAddr of
             Inl err \<Rightarrow> (Inl err, t1 @ [CallDialArgs apiAddr])
           | Inr (network, host) \<Rightarrow>
               (case newClient d cctx exe daemonRequested apiAddr network host of
                  (r, t2) \<Rightarrow> (r, t1 @ [CallDialArgs apiAddr] @ t2))))"

definition makeExecutor :: "Deps \<Rightarrow> Request \<Rightarrow> Context \<Rightarrow> (error + Executor) \<times> call list" where
  "makeExecutor d req cctx =
     (let exe = NewExecutor (Root req);
          details = commandDetails (cmdDetailsMap d) (Path req)
      in if cannotRunOnClient details \<and> cannotRunOnDaemon details then
           (Inl (ErrorString (''command disabled: '' @ fmt_v (Path req))), [])
         else if \<not> cannotRunOnClient details \<and> doesNotUseRepo details then
           (Inr exe, [])
         else
           (case apiAddrOption d req of
              (Inl err, t1) \<Rightarrow> (Inl err, t1)
            | (Inr apiAddr, t1) \<Rightarrow>
                (let daemonRequested = (apiAddr \<noteq> None \<and> Command req \<noteq> daemonCmd d)
                 in if cannotRunOnDaemon details \<or> External d (Command req) then
                      (if daemonRequested then
                         (Inl (ErrorString
                            ''api flag specified but command cannot be run on the daemon''), t1)
                       else (Inr exe, t1))
                    else
                      (case repoAPIAddr d cctx apiAddr of
                         (Inl err, t2) \<Rightarrow> (Inl err, t1 @ t2)
                       | (Inr None, t2) \<Rightarrow>
                           (if cannotRunOnClient details then
                              (Inl (ErrorString
                                 (''command must be run on the daemon: '' @ fmt_v (Path req))),
                               t1 @ t2)
                            else (Inr exe, t1 @ t2))
                       | (Inr (Some a), t2) \<Rightarrow>
                           (case dialDaemon d cctx exe daemonRequested a of
                              (r, t3) \<Rightarrow> (r, t1 @ t2 @ t3))))))"

subsection \<open>Example inputs\<close>

text \<open>
  A registry with one entry of every kind: commands that need no repository, commands
  bound to the client, commands bound to the daemon, a nested entry, and an entry with
  both restrictions.
\<close>

definition exMap :: "string \<rightharpoonup> cmdDetails" where
  "exMap = map_of
     [(''init'', \<lparr>cannotRunOnClient = False, cannotRunOnDaemon = True, doesNotUseRepo = True\<rparr>),
      (''daemon'', \<lparr>cannotRunOnClient = False, cannotRunOnDaemon = True, doesNotUseRepo = False\<rparr>),
      (''version'', \<lparr>cannotRunOnClient = False, cannotRunOnDaemon = False, doesNotUseRepo = True\<rparr>),
      (''log'', \<lparr>cannotRunOnClient = True, cannotRunOnDaemon = False, doesNotUseRepo = False\<rparr>),
      (''repo/fsck'', \<lparr>cannotRunOnClient = False, cannotRunOnDaemon = True, doesNotUseRepo = False\<rparr>),
      (''off'', \<lparr>cannotRunOnClient = True, cannotRunOnDaemon = True, doesNotUseRepo = False\<rparr>)]"

text \<open>
  Collaborators for the examples: the repository \<^verbatim>\<open>/repo\<close> is initialized and has an API
  file, \<^verbatim>\<open>/locked\<close> has an API file that cannot be read, any other has none; the daemon
  command is at address 1 and the command at address 7 is external.
\<close>

definition exDeps :: Deps where
  "exDeps =
     \<lparr>cmdDetailsMap = exMap,
      daemonCmd = 1,
      ApiOption = ''api'',
      APIPath = ''/api/v0'',
      External = (\<lambda>c. c = 7),
      NewMultiaddr = (\<lambda>s. if take 1 s = ''/'' then Inr s
                          else Inl (ErrorString ''invalid multiaddr, must begin with /'')),
      APIAddr = (\<lambda>root. if root = ''/repo'' then Inr ''/ip4/127.0.0.1/tcp/5001''
                        else if root = ''/locked'' then Inl (ErrorString ''permission denied'')
                        else Inl ErrApiNotRunning),
      Resolve = (\<lambda>a. if a = ''/dns4/none/tcp/1'' then Inr []
                     else if a = ''/dns4/down/tcp/1'' then Inl (ErrorString ''lookup failed'')
                     else if a = ''/dns4/two/tcp/1'' then Inr [''/ip4/10.0.0.2/tcp/1'', ''/ip4/10.0.0.1/tcp/1'']
                     else Inr [a]),
      DialArgs = (\<lambda>a. if a = ''/ip4/127.0.0.1/tcp/5001'' then Inr (''tcp4'', ''127.0.0.1:5001'')
                      else if a = ''/unix/run/api.sock'' then Inr (''unix'', ''/run/api.sock'')
                      else if a = ''/ip4/127.0.0.1/udp/5001'' then Inr (''udp4'', ''127.0.0.1:5001'')
                      else Inl (ErrorString ''not a dialable multiaddr'')),
      IsInitialized = (\<lambda>root. root = ''/repo'')\<rparr>"

definition exReq :: "string list \<Rightarrow> string option \<Rightarrow> cmd_ptr \<Rightarrow> Request" where
  "exReq path api c =
     \<lparr>Path = path,
      Options = (case api of None \<Rightarrow> Map.empty | Some s \<Rightarrow> [''api'' \<mapsto> OptString s]),
      Command = c,
      Root = 0\<rparr>"

section \<open>Auxiliary facts\<close>

text \<open>The loop of \<^verbatim>\<open>commandDetails\<close>: the last entry found is the one kept.\<close>

lemma fold_none:
  "\<forall>i<n. m (key i) = None \<Longrightarrow>
   fold (\<lambda>i details. case m (key i) of Some found \<Rightarrow> found | None \<Rightarrow> details) [0..<n] z = z"
  by (induction n) simp_all

lemma fold_last:
  "k < n \<Longrightarrow> m (key k) = Some v \<Longrightarrow> \<forall>j. k < j \<and> j < n \<longrightarrow> m (key j) = None \<Longrightarrow>
   fold (\<lambda>i details. case m (key i) of Some found \<Rightarrow> found | None \<Rightarrow> details) [0..<n] z = v"
proof (induction n)
  case 0
  then show ?case by simp
next
  case (Suc n)
  show ?case
  proof (cases "k = n")
    case True
    with Suc.prems show ?thesis by simp
  next
    case False
    with Suc.prems have "k < n" by simp
    moreover from Suc.prems False have "m (key n) = None" by simp
    ultimately show ?thesis using Suc by simp
  qed
qed

text \<open>An absent API option makes no call.\<close>

lemma apiAddrOption_None_calls:
  "fst (apiAddrOption d req) = Inr None \<Longrightarrow> snd (apiAddrOption d req) = []"
  by (auto simp: apiAddrOption_def split: option.splits optval.splits sum.splits)

text \<open>The fallback option of a client, through the stages that build it.\<close>

lemma newClient_fallback:
  "newClient d cctx exe dr a network host = (Inr (NewClient h opts), t) \<Longrightarrow>
   (ClientWithFallback exe \<in> set opts) = (\<not> dr \<and> IsInitialized d (ConfigRoot cctx))
   \<and> (\<forall>e. ClientWithFallback e \<in> set opts \<longrightarrow> e = exe)"
  by (auto simp: newClient_def Let_def split: if_splits)

lemma dialDaemon_fallback:
  "dialDaemon d cctx exe dr a = (Inr (NewClient h opts), t) \<Longrightarrow>
   (ClientWithFallback exe \<in> set opts) = (\<not> dr \<and> IsInitialized d (ConfigRoot cctx))
   \<and> (\<forall>e. ClientWithFallback e \<in> set opts \<longrightarrow> e = exe)"
  unfolding dialDaemon_def
  by (auto split: prod.splits sum.splits dest!: newClient_fallback)

text \<open>
  The switch on the network in \<^verbatim>\<open>newClient\<close>, and how \<^verbatim>\<open>makeExecutor\<close> reaches it:
  through the address of the request or of the API file, its resolution and its dial
  arguments.
\<close>

lemma newClient_switch:
  "(network = ''tcp'' \<or> network = ''tcp4'' \<or> network = ''tcp6'' \<longrightarrow>
      (\<exists>opts. fst (newClient d cctx exe dr apiAddr network host) = Inr (NewClient host opts)
             \<and> (\<forall>c. ClientWithHTTPClient c \<notin> set opts)))
   \<and> (network = ''unix'' \<longrightarrow>
      (\<exists>opts dial. fst (newClient d cctx exe dr apiAddr network host) = Inr (NewClient ''unix'' opts)
             \<and> (\<forall>c. ClientWithHTTPClient c \<in> set opts \<longleftrightarrow> c = HTTPClient dial)
             \<and> (\<forall>n a. dial n a = (''unix'', host))))
   \<and> (network \<noteq> ''tcp'' \<and> network \<noteq> ''tcp4'' \<and> network \<noteq> ''tcp6'' \<and> network \<noteq> ''unix'' \<longrightarrow>
      fst (newClient d cctx exe dr apiAddr network host)
        = Inl (ErrorString (''unsupported API address: '' @ apiAddr)))"
  by (auto simp: newClient_def Let_def)

lemma dialDaemon_newClient:
  "Resolve d a0 = Inr (r # rs) \<Longrightarrow> DialArgs d r = Inr (network, host) \<Longrightarrow>
   fst (dialDaemon d cctx exe dr a0) = fst (newClient d cctx exe dr r network host)"
  by (simp add: dialDaemon_def resolveAddr_def split: prod.splits)

lemma makeExecutor_dialDaemon:
  assumes "\<not> (cannotRunOnClient (commandDetails (cmdDetailsMap d) (Path req))
       \<and> cannotRunOnDaemon (commandDetails (cmdDetailsMap d) (Path req)))"
    and "\<not> (\<not> cannotRunOnClient (commandDetails (cmdDetailsMap d) (Path req))
       \<and> doesNotUseRepo (commandDetails (cmdDetailsMap d) (Path req)))"
    and "\<not> (cannotRunOnDaemon (commandDetails (cmdDetailsMap d) (Path req))
       \<or> External d (Command req))"
    and "fst (apiAddrOption d req) = Inr apiAddr"
    and "apiAddr = Some a0 \<or> (apiAddr = None \<and> APIAddr d (ConfigRoot cctx) = Inr a0)"
  shows "fst (makeExecutor d req cctx)
     = fst (dialDaemon d cctx (NewExecutor (Root req))
              (apiAddr \<noteq> None \<and> Command req \<noteq> daemonCmd d) a0)"
proof -
  obtain t1 where o: "apiAddrOption d req = (Inr apiAddr, t1)"
    using assms(4) by (cases "apiAddrOption d req") simp
  from assms(5) obtain t2 where "repoAPIAddr d cctx apiAddr = (Inr (Some a0), t2)"
    by (auto simp: repoAPIAddr_def)
  with o assms(1-3) show ?thesis
    by (auto simp: makeExecutor_def Let_def split: prod.splits)
qed

text \<open>The example registry and the example requests, evaluated.\<close>

lemma exMap_simps:
  "exMap ''init'' = Some \<lparr>cannotRunOnClient = False, cannotRunOnDaemon = True, doesNotUseRepo = True\<rparr>"
  "exMap ''version'' = Some \<lparr>cannotRunOnClient = False, cannotRunOnDaemon = False, doesNotUseRepo = True\<rparr>"
  "exMap ''log'' = Some \<lparr>cannotRunOnClient = True, cannotRunOnDaemon = False, doesNotUseRepo = False\<rparr>"
  "exMap ''off'' = Some \<lparr>cannotRunOnClient = True, cannotRunOnDaemon = True, doesNotUseRepo = False\<rparr>"
  "exMap ''daemon'' = Some \<lparr>cannotRunOnClient = False, cannotRunOnDaemon = True, doesNotUseRepo = False\<rparr>"
  "exMap ''repo'' = None"
  "exMap ''repo/fsck'' = Some \<lparr>cannotRunOnClient = False, cannotRunOnDaemon = True, doesNotUseRepo = False\<rparr>"
  "exMap ''repo/fsck/x'' = None"
  "exMap ''swarm'' = None"
  "exMap ''swarm/peers'' = None"
  "exMap ''plugin'' = None"
  by (simp_all add: exMap_def)

lemma upt_2: "[0..<2] = [0, 1]"
  by (simp add: upt_rec)

lemma ex_details:
  "commandDetails exMap [] = \<lparr>cannotRunOnClient = False, cannotRunOnDaemon = False, doesNotUseRepo = True\<rparr>"
  "commandDetails exMap [''init''] = \<lparr>cannotRunOnClient = False, cannotRunOnDaemon = True, doesNotUseRepo = True\<rparr>"
  "commandDetails exMap [''version''] = \<lparr>cannotRunOnClient = False, cannotRunOnDaemon = False, doesNotUseRepo = True\<rparr>"
  "commandDetails exMap [''log''] = \<lparr>cannotRunOnClient = True, cannotRunOnDaemon = False, doesNotUseRepo = False\<rparr>"
  "commandDetails exMap [''off''] = \<lparr>cannotRunOnClient = True, cannotRunOnDaemon = True, doesNotUseRepo = False\<rparr>"
  "commandDetails exMap [''daemon''] = \<lparr>cannotRunOnClient = False, cannotRunOnDaemon = True, doesNotUseRepo = False\<rparr>"
  "commandDetails exMap [''repo'', ''fsck''] = \<lparr>cannotRunOnClient = False, cannotRunOnDaemon = True, doesNotUseRepo = False\<rparr>"
  "commandDetails exMap [''swarm'', ''peers''] = \<lparr>cannotRunOnClient = False, cannotRunOnDaemon = False, doesNotUseRepo = False\<rparr>"
  "commandDetails exMap [''plugin''] = \<lparr>cannotRunOnClient = False, cannotRunOnDaemon = False, doesNotUseRepo = False\<rparr>"
  by (simp_all add: commandDetails_def zeroDetails_def exMap_simps upt_2)

lemmas ex_eval = makeExecutor_def apiAddrOption_def repoAPIAddr_def dialDaemon_def
  resolveAddr_def newClient_def exDeps_def exReq_def fmt_v_def Let_def ex_details

lemma ex_remote:
  "makeExecutor exDeps (exReq [''swarm'', ''peers''] None 3) \<lparr>ConfigRoot = ''/repo''\<rparr>
     = (Inr (NewClient ''127.0.0.1:5001''
               [ClientWithAPIPrefix ''/api/v0'', ClientWithFallback (NewExecutor 0)]),
        [CallAPIAddr ''/repo'', CallResolve ''/ip4/127.0.0.1/tcp/5001'',
         CallDialArgs ''/ip4/127.0.0.1/tcp/5001'', CallIsInitialized ''/repo''])"
  "makeExecutor exDeps (exReq [''swarm'', ''peers''] (Some ''/ip4/127.0.0.1/tcp/5001'') 3)
       \<lparr>ConfigRoot = ''/repo''\<rparr>
     = (Inr (NewClient ''127.0.0.1:5001'' [ClientWithAPIPrefix ''/api/v0'']),
        [CallNewMultiaddr ''/ip4/127.0.0.1/tcp/5001'', CallResolve ''/ip4/127.0.0.1/tcp/5001'',
         CallDialArgs ''/ip4/127.0.0.1/tcp/5001''])"
  by (simp_all add: ex_eval)

lemma ex_api:
  "fst (apiAddrOption exDeps (exReq [''swarm'', ''peers''] None 3)) = Inr None"
  "fst (apiAddrOption exDeps (exReq [''swarm'', ''peers''] (Some ''/ip4/127.0.0.1/tcp/5001'') 3))
     = Inr (Some ''/ip4/127.0.0.1/tcp/5001'')"
  by (simp_all add: apiAddrOption_def exDeps_def exReq_def)

section \<open>Capability lookup\<close>

text \<open>
  Claim C1. \<^verbatim>\<open>commandDetails\<close> depends on the path (and the static registry) only. The
  empty path has exactly the flags with \<open>doesNotUseRepo\<close> set. For a non-empty path,
  the prefixes of length 1 up to the length of the path are looked up in that order,
  each joined by \<^verbatim>\<open>/\<close>: if the prefix of length \<open>k\<close> is registered and no longer one
  is, the flags are those registered for it; if no prefix is registered, every flag is
  false.
\<close>

theorem commandDetails_deepest_prefix:
  "commandDetails m [] =
     \<lparr>cannotRunOnClient = False, cannotRunOnDaemon = False, doesNotUseRepo = True\<rparr>
   \<and> (\<forall>k v. path \<noteq> [] \<and> 1 \<le> k \<and> k \<le> length path
         \<and> m (Join (take k path) ''/'') = Some v
         \<and> (\<forall>j. k < j \<and> j \<le> length path \<longrightarrow> m (Join (take j path) ''/'') = None)
        \<longrightarrow> commandDetails m path = v)
   \<and> (path \<noteq> [] \<and> (\<forall>j. 1 \<le> j \<and> j \<le> length path \<longrightarrow> m (Join (take j path) ''/'') = None)
        \<longrightarrow> commandDetails m path =
            \<lparr>cannotRunOnClient = False, cannotRunOnDaemon = False, doesNotUseRepo = False\<rparr>)"
proof (intro conjI allI impI)
  show "commandDetails m [] =
     \<lparr>cannotRunOnClient = False, cannotRunOnDaemon = False, doesNotUseRepo = True\<rparr>"
    by (simp add: commandDetails_def zeroDetails_def)
next
  fix k v
  assume a: "path \<noteq> [] \<and> 1 \<le> k \<and> k \<le> length path
         \<and> m (Join (take k path) ''/'') = Some v
         \<and> (\<forall>j. k < j \<and> j \<le> length path \<longrightarrow> m (Join (take j path) ''/'') = None)"
  then obtain k' where k': "k = Suc k'" by (cases k) auto
  let ?key = "\<lambda>i. Join (take (i + 1) path) ''/''"
  have "fold (\<lambda>i details. case m (?key i) of Some found \<Rightarrow> found | None \<Rightarrow> details)
          [0..<length path] zeroDetails = v"
  proof (rule fold_last [where k = k'])
    show "k' < length path" using a k' by simp
    show "m (?key k') = Some v" using a k' by simp
    show "\<forall>j. k' < j \<and> j < length path \<longrightarrow> m (?key j) = None"
    proof (intro allI impI)
      fix j assume "k' < j \<and> j < length path"
      then have "k < Suc j \<and> Suc j \<le> length path" using k' by simp
      with a have "m (Join (take (Suc j) path) ''/'') = None" by blast
      then show "m (?key j) = None" by simp
    qed
  qed
  with a show "commandDetails m path = v" by (simp add: commandDetails_def)
next
  assume a: "path \<noteq> [] \<and> (\<forall>j. 1 \<le> j \<and> j \<le> length path \<longrightarrow> m (Join (take j path) ''/'') = None)"
  let ?key = "\<lambda>i. Join (take (i + 1) path) ''/''"
  have "fold (\<lambda>i details. case m (?key i) of Some found \<Rightarrow> found | None \<Rightarrow> details)
          [0..<length path] zeroDetails = zeroDetails"
  proof (rule fold_none, intro allI impI)
    fix i assume "i < length path"
    then have "1 \<le> Suc i \<and> Suc i \<le> length path" by simp
    with a have "m (Join (take (Suc i) path) ''/'') = None" by blast
    then show "m (?key i) = None" by simp
  qed
  with a show "commandDetails m path =
            \<lparr>cannotRunOnClient = False, cannotRunOnDaemon = False, doesNotUseRepo = False\<rparr>"
    by (simp add: commandDetails_def zeroDetails_def)
qed

text \<open>The theorem at example inputs.\<close>

theorem commandDetails_deepest_prefix_witness:
  "commandDetails exMap [''repo'', ''fsck'', ''x'']
     = \<lparr>cannotRunOnClient = False, cannotRunOnDaemon = True, doesNotUseRepo = False\<rparr>
   \<and> commandDetails exMap [''swarm'', ''peers'']
     = \<lparr>cannotRunOnClient = False, cannotRunOnDaemon = False, doesNotUseRepo = False\<rparr>"
proof -
  have a: "\<forall>j. 2 < j \<and> j \<le> length [''repo'', ''fsck'', ''x''] \<longrightarrow>
             exMap (Join (take j [''repo'', ''fsck'', ''x'']) ''/'') = None"
  proof (intro allI impI)
    fix j :: nat assume "2 < j \<and> j \<le> length [''repo'', ''fsck'', ''x'']"
    then have "j = 3" by simp
    then show "exMap (Join (take j [''repo'', ''fsck'', ''x'']) ''/'') = None"
      by (simp add: exMap_simps)
  qed
  have b: "\<forall>j. 1 \<le> j \<and> j \<le> length [''swarm'', ''peers''] \<longrightarrow>
             exMap (Join (take j [''swarm'', ''peers'']) ''/'') = None"
  proof (intro allI impI)
    fix j :: nat assume "1 \<le> j \<and> j \<le> length [''swarm'', ''peers'']"
    then have "j = 1 \<or> j = 2" by auto
    then show "exMap (Join (take j [''swarm'', ''peers'']) ''/'') = None"
      by (auto simp: exMap_simps numeral_2_eq_2)
  qed
  have c: "[''repo'', ''fsck'', ''x''] \<noteq> [] \<and> 1 \<le> (2::nat) \<and> 2 \<le> length [''repo'', ''fsck'', ''x'']
     \<and> exMap (Join (take 2 [''repo'', ''fsck'', ''x'']) ''/'')
       = Some \<lparr>cannotRunOnClient = False, cannotRunOnDaemon = True, doesNotUseRepo = False\<rparr>
     \<and> (\<forall>j. 2 < j \<and> j \<le> length [''repo'', ''fsck'', ''x''] \<longrightarrow>
             exMap (Join (take j [''repo'', ''fsck'', ''x'']) ''/'') = None)"
    using a by (simp add: exMap_simps numeral_2_eq_2)
  have d: "[''swarm'', ''peers''] \<noteq> [] \<and> (\<forall>j. 1 \<le> j \<and> j \<le> length [''swarm'', ''peers''] \<longrightarrow>
             exMap (Join (take j [''swarm'', ''peers'']) ''/'') = None)"
    using b by simp
  note t1 = commandDetails_deepest_prefix [of exMap "[''repo'', ''fsck'', ''x'']"]
  note t2 = commandDetails_deepest_prefix [of exMap "[''swarm'', ''peers'']"]
  from t1 [THEN conjunct2, THEN conjunct1, rule_format, OF c]
    t2 [THEN conjunct2, THEN conjunct2, rule_format, OF d]
  show ?thesis by simp
qed

section \<open>Disabled commands\<close>

text \<open>
  Claim C2. When the flags of the command have both \<open>cannotRunOnClient\<close> and
  \<open>cannotRunOnDaemon\<close>, \<^verbatim>\<open>makeExecutor\<close> returns the error \<^verbatim>\<open>command disabled\<close> (with
  the path) and no executor, whatever the options of the request are, and calls no
  collaborator.
\<close>

theorem makeExecutor_disabled:
  "cannotRunOnClient (commandDetails (cmdDetailsMap d) (Path req)) \<Longrightarrow>
   cannotRunOnDaemon (commandDetails (cmdDetailsMap d) (Path req)) \<Longrightarrow>
   makeExecutor d req cctx =
     (Inl (ErrorString (''command disabled: '' @ fmt_v (Path req))), [])"
  by (simp add: makeExecutor_def Let_def)

text \<open>The theorem at example inputs.\<close>

theorem makeExecutor_disabled_witness:
  "cannotRunOnClient (commandDetails (cmdDetailsMap exDeps) [''off''])
   \<and> cannotRunOnDaemon (commandDetails (cmdDetailsMap exDeps) [''off''])
   \<and> makeExecutor exDeps (exReq [''off''] (Some ''/ip4/127.0.0.1/tcp/5001'') 3)
        \<lparr>ConfigRoot = ''/repo''\<rparr>
      = (Inl (ErrorString ''command disabled: [off]''), [])
   \<and> makeExecutor exDeps (exReq [''off''] None 3) \<lparr>ConfigRoot = ''/repo''\<rparr>
      = (Inl (ErrorString ''command disabled: [off]''), [])"
  using makeExecutor_disabled [of exDeps "exReq [''off''] (Some ''/ip4/127.0.0.1/tcp/5001'') 3"
      "\<lparr>ConfigRoot = ''/repo''\<rparr>"]
    makeExecutor_disabled [of exDeps "exReq [''off''] None 3" "\<lparr>ConfigRoot = ''/repo''\<rparr>"]
  by (simp add: exDeps_def exReq_def fmt_v_def ex_details)

section \<open>The local fast path\<close>

text \<open>
  Claim C3. When the flags have \<open>cannotRunOnClient\<close> false and \<open>doesNotUseRepo\<close> true,
  \<^verbatim>\<open>makeExecutor\<close> returns the local executor and its log of calls is empty: the API
  option is not parsed, the API file is not looked for, no address is resolved.
\<close>

theorem makeExecutor_local_fast_path:
  "\<not> cannotRunOnClient (commandDetails (cmdDetailsMap d) (Path req)) \<Longrightarrow>
   doesNotUseRepo (commandDetails (cmdDetailsMap d) (Path req)) \<Longrightarrow>
   makeExecutor d req cctx = (Inr (NewExecutor (Root req)), [])"
  by (simp add: makeExecutor_def Let_def)

text \<open>The theorem at example inputs.\<close>

theorem makeExecutor_local_fast_path_witness:
  "\<not> cannotRunOnClient (commandDetails (cmdDetailsMap exDeps) [''version''])
   \<and> doesNotUseRepo (commandDetails (cmdDetailsMap exDeps) [''version''])
   \<and> makeExecutor exDeps (exReq [''version''] (Some ''not a multiaddr'') 3)
        \<lparr>ConfigRoot = ''/locked''\<rparr>
      = (Inr (NewExecutor 0), [])"
  using makeExecutor_local_fast_path [of exDeps "exReq [''version''] (Some ''not a multiaddr'') 3"
      "\<lparr>ConfigRoot = ''/locked''\<rparr>"]
  by (simp add: exDeps_def exReq_def ex_details)

section \<open>Commands that run on the client only\<close>

text \<open>The claim as stated, refuted at an example input.\<close>

theorem makeExecutor_client_only_counterexample:
  "cannotRunOnDaemon (commandDetails (cmdDetailsMap exDeps) [''init''])
   \<and> fst (apiAddrOption exDeps (exReq [''init''] (Some ''/ip4/127.0.0.1/tcp/5001'') 3))
       = Inr (Some ''/ip4/127.0.0.1/tcp/5001'')
   \<and> Command (exReq [''init''] (Some ''/ip4/127.0.0.1/tcp/5001'') 3) \<noteq> daemonCmd exDeps
   \<and> makeExecutor exDeps (exReq [''init''] (Some ''/ip4/127.0.0.1/tcp/5001'') 3)
        \<lparr>ConfigRoot = ''/repo''\<rparr>
      = (Inr (NewExecutor 0), [])
   \<and> fst (makeExecutor exDeps (exReq [''init''] (Some ''/ip4/127.0.0.1/tcp/5001'') 3)
        \<lparr>ConfigRoot = ''/repo''\<rparr>)
      \<noteq> Inl (ErrorString ''api flag specified but command cannot be run on the daemon'')"
  by (simp add: ex_eval)

text \<open>
  Claim C4, as amended. For a request that passes the disabled check and does not take
  the fast path, whose API option is absent or parses, and whose command has
  \<open>cannotRunOnDaemon\<close> or is external: if an address was given and the command is not
  the daemon command, the result is the error \<^verbatim>\<open>api flag specified but command cannot
  be run on the daemon\<close>; otherwise it is the local executor. As stated, without the two
  earlier checks, the claim fails: a command with \<open>cannotRunOnDaemon\<close> and
  \<open>doesNotUseRepo\<close> runs locally even with an address.
\<close>

theorem makeExecutor_client_only:
  "\<not> (cannotRunOnClient (commandDetails (cmdDetailsMap d) (Path req))
       \<and> cannotRunOnDaemon (commandDetails (cmdDetailsMap d) (Path req))) \<Longrightarrow>
   \<not> (\<not> cannotRunOnClient (commandDetails (cmdDetailsMap d) (Path req))
       \<and> doesNotUseRepo (commandDetails (cmdDetailsMap d) (Path req))) \<Longrightarrow>
   cannotRunOnDaemon (commandDetails (cmdDetailsMap d) (Path req)) \<or> External d (Command req) \<Longrightarrow>
   fst (apiAddrOption d req) = Inr apiAddr \<Longrightarrow>
   fst (makeExecutor d req cctx) =
     (if apiAddr \<noteq> None \<and> Command req \<noteq> daemonCmd d
      then Inl (ErrorString ''api flag specified but command cannot be run on the daemon'')
      else Inr (NewExecutor (Root req)))"
  by (cases "apiAddrOption d req") (auto simp: makeExecutor_def Let_def)

text \<open>The theorem at example inputs.\<close>

theorem makeExecutor_client_only_witness:
  "fst (makeExecutor exDeps (exReq [''repo'', ''fsck''] (Some ''/ip4/127.0.0.1/tcp/5001'') 3)
        \<lparr>ConfigRoot = ''/repo''\<rparr>)
      = Inl (ErrorString ''api flag specified but command cannot be run on the daemon'')
   \<and> fst (makeExecutor exDeps (exReq [''repo'', ''fsck''] None 3) \<lparr>ConfigRoot = ''/repo''\<rparr>)
      = Inr (NewExecutor 0)
   \<and> fst (makeExecutor exDeps (exReq [''daemon''] (Some ''/ip4/127.0.0.1/tcp/5001'') 1)
        \<lparr>ConfigRoot = ''/repo''\<rparr>)
      = Inr (NewExecutor 0)
   \<and> fst (makeExecutor exDeps (exReq [''plugin''] (Some ''/ip4/127.0.0.1/tcp/5001'') 7)
        \<lparr>ConfigRoot = ''/repo''\<rparr>)
      = Inl (ErrorString ''api flag specified but command cannot be run on the daemon'')"
  using makeExecutor_client_only [of exDeps
      "exReq [''repo'', ''fsck''] (Some ''/ip4/127.0.0.1/tcp/5001'') 3"
      "Some ''/ip4/127.0.0.1/tcp/5001''" "\<lparr>ConfigRoot = ''/repo''\<rparr>"]
    makeExecutor_client_only [of exDeps "exReq [''repo'', ''fsck''] None 3" None
      "\<lparr>ConfigRoot = ''/repo''\<rparr>"]
    makeExecutor_client_only [of exDeps
      "exReq [''daemon''] (Some ''/ip4/127.0.0.1/tcp/5001'') 1"
      "Some ''/ip4/127.0.0.1/tcp/5001''" "\<lparr>ConfigRoot = ''/repo''\<rparr>"]
    makeExecutor_client_only [of exDeps
      "exReq [''plugin''] (Some ''/ip4/127.0.0.1/tcp/5001'') 7"
      "Some ''/ip4/127.0.0.1/tcp/5001''" "\<lparr>ConfigRoot = ''/repo''\<rparr>"]
  by (simp add: exDeps_def exReq_def apiAddrOption_def ex_details)

section \<open>Discovery of the API address\<close>

text \<open>The claim as stated, refuted at an example input.\<close>

theorem makeExecutor_discovery_counterexample:
  "fst (apiAddrOption exDeps (exReq [''repo'', ''fsck''] None 3)) = Inr None
   \<and> APIAddr exDeps (ConfigRoot \<lparr>ConfigRoot = ''/locked''\<rparr>) = Inl (ErrorString ''permission denied'')
   \<and> makeExecutor exDeps (exReq [''repo'', ''fsck''] None 3) \<lparr>ConfigRoot = ''/locked''\<rparr>
      = (Inr (NewExecutor 0), [])
   \<and> CallAPIAddr ''/locked''
      \<notin> set (snd (makeExecutor exDeps (exReq [''repo'', ''fsck''] None 3) \<lparr>ConfigRoot = ''/locked''\<rparr>))
   \<and> fst (makeExecutor exDeps (exReq [''repo'', ''fsck''] None 3) \<lparr>ConfigRoot = ''/locked''\<rparr>)
      \<noteq> Inl (ErrorString ''permission denied'')"
  by (simp add: ex_eval)

text \<open>
  Claim C5, as amended. For a request that reaches the discovery step (it passes the
  disabled check, does not take the fast path, and its command neither has
  \<open>cannotRunOnDaemon\<close> nor is external) and gave no API address: \<^verbatim>\<open>fsrepo.APIAddr\<close> is
  called first, on the configuration root; an error other than
  \<^verbatim>\<open>repo.ErrApiNotRunning\<close> is returned as it is; \<^verbatim>\<open>repo.ErrApiNotRunning\<close> means no
  address, and then the result is the error \<^verbatim>\<open>command must be run on the daemon\<close> when
  \<open>cannotRunOnClient\<close> holds and the local executor otherwise; an address found is
  resolved and dialled. As stated, for every request without an address, the claim
  fails: a command with \<open>cannotRunOnDaemon\<close> gets the local executor with no discovery.
\<close>

theorem makeExecutor_discovery:
  assumes "\<not> (cannotRunOnClient (commandDetails (cmdDetailsMap d) (Path req))
       \<and> cannotRunOnDaemon (commandDetails (cmdDetailsMap d) (Path req)))"
    and "\<not> (\<not> cannotRunOnClient (commandDetails (cmdDetailsMap d) (Path req))
       \<and> doesNotUseRepo (commandDetails (cmdDetailsMap d) (Path req)))"
    and "\<not> (cannotRunOnDaemon (commandDetails (cmdDetailsMap d) (Path req))
       \<or> External d (Command req))"
    and "fst (apiAddrOption d req) = Inr None"
  shows "(\<exists>t. snd (makeExecutor d req cctx) = CallAPIAddr (ConfigRoot cctx) # t)
    \<and> (\<forall>err. APIAddr d (ConfigRoot cctx) = Inl err \<and> err \<noteq> ErrApiNotRunning
          \<longrightarrow> makeExecutor d req cctx = (Inl err, [CallAPIAddr (ConfigRoot cctx)]))
    \<and> (APIAddr d (ConfigRoot cctx) = Inl ErrApiNotRunning
          \<longrightarrow> makeExecutor d req cctx =
              (if cannotRunOnClient (commandDetails (cmdDetailsMap d) (Path req))
               then Inl (ErrorString (''command must be run on the daemon: '' @ fmt_v (Path req)))
               else Inr (NewExecutor (Root req)),
               [CallAPIAddr (ConfigRoot cctx)]))
    \<and> (\<forall>a. APIAddr d (ConfigRoot cctx) = Inr a
          \<longrightarrow> fst (makeExecutor d req cctx)
              = fst (dialDaemon d cctx (NewExecutor (Root req)) False a))"
proof -
  from assms(4) have "apiAddrOption d req = (Inr None, [])"
    using apiAddrOption_None_calls [of d req] by (cases "apiAddrOption d req") simp
  with assms(1-3) show ?thesis
    by (cases "APIAddr d (ConfigRoot cctx)")
       (auto simp: makeExecutor_def Let_def repoAPIAddr_def split: prod.splits)
qed

text \<open>The theorem at example inputs.\<close>

theorem makeExecutor_discovery_witness:
  "makeExecutor exDeps (exReq [''swarm'', ''peers''] None 3) \<lparr>ConfigRoot = ''/locked''\<rparr>
      = (Inl (ErrorString ''permission denied''), [CallAPIAddr ''/locked''])
   \<and> makeExecutor exDeps (exReq [''swarm'', ''peers''] None 3) \<lparr>ConfigRoot = ''/none''\<rparr>
      = (Inr (NewExecutor 0), [CallAPIAddr ''/none''])
   \<and> makeExecutor exDeps (exReq [''log''] None 3) \<lparr>ConfigRoot = ''/none''\<rparr>
      = (Inl (ErrorString ''command must be run on the daemon: [log]''), [CallAPIAddr ''/none''])
   \<and> fst (makeExecutor exDeps (exReq [''swarm'', ''peers''] None 3) \<lparr>ConfigRoot = ''/repo''\<rparr>)
      = fst (dialDaemon exDeps \<lparr>ConfigRoot = ''/repo''\<rparr> (NewExecutor 0) False
               ''/ip4/127.0.0.1/tcp/5001'')"
  using makeExecutor_discovery [of exDeps "exReq [''swarm'', ''peers''] None 3"
      "\<lparr>ConfigRoot = ''/locked''\<rparr>"]
    makeExecutor_discovery [of exDeps "exReq [''swarm'', ''peers''] None 3"
      "\<lparr>ConfigRoot = ''/none''\<rparr>"]
    makeExecutor_discovery [of exDeps "exReq [''log''] None 3" "\<lparr>ConfigRoot = ''/none''\<rparr>"]
    makeExecutor_discovery [of exDeps "exReq [''swarm'', ''peers''] None 3"
      "\<lparr>ConfigRoot = ''/repo''\<rparr>"]
  by (simp add: exDeps_def exReq_def apiAddrOption_def fmt_v_def ex_details)

section \<open>The local fallback of the remote client\<close>

text \<open>
  Claim C6. Whenever \<^verbatim>\<open>makeExecutor\<close> returns a remote client (an address existed, was
  resolved, and the transport was built), the client has the fallback option exactly
  when \<open>daemonRequested\<close> is false and the repository is initialized, and the
  fallback is the local executor; in every other case the client has no fallback.
\<close>

theorem makeExecutor_fallback:
  assumes "makeExecutor d req cctx = (Inr (NewClient host opts), t)"
    and "fst (apiAddrOption d req) = Inr apiAddr"
  shows "(ClientWithFallback (NewExecutor (Root req)) \<in> set opts)
       = (\<not> (apiAddr \<noteq> None \<and> Command req \<noteq> daemonCmd d) \<and> IsInitialized d (ConfigRoot cctx))
     \<and> (\<forall>e. ClientWithFallback e \<in> set opts \<longrightarrow> e = NewExecutor (Root req))"
proof -
  obtain t1 where o: "apiAddrOption d req = (Inr apiAddr, t1)"
    using assms(2) by (cases "apiAddrOption d req") simp
  from assms(1) o obtain a t2 t3 where
    "dialDaemon d cctx (NewExecutor (Root req))
       (apiAddr \<noteq> None \<and> Command req \<noteq> daemonCmd d) a = (Inr (NewClient host opts), t3)"
    by (auto simp: makeExecutor_def Let_def split: if_splits prod.splits sum.splits option.splits)
  from dialDaemon_fallback [OF this] show ?thesis .
qed

text \<open>The theorem at example inputs.\<close>

theorem makeExecutor_fallback_witness:
  "makeExecutor exDeps (exReq [''swarm'', ''peers''] None 3) \<lparr>ConfigRoot = ''/repo''\<rparr>
     = (Inr (NewClient ''127.0.0.1:5001''
               [ClientWithAPIPrefix ''/api/v0'', ClientWithFallback (NewExecutor 0)]),
        [CallAPIAddr ''/repo'', CallResolve ''/ip4/127.0.0.1/tcp/5001'',
         CallDialArgs ''/ip4/127.0.0.1/tcp/5001'', CallIsInitialized ''/repo''])
   \<and> IsInitialized exDeps ''/repo''
   \<and> makeExecutor exDeps (exReq [''swarm'', ''peers''] (Some ''/ip4/127.0.0.1/tcp/5001'') 3)
       \<lparr>ConfigRoot = ''/repo''\<rparr>
     = (Inr (NewClient ''127.0.0.1:5001'' [ClientWithAPIPrefix ''/api/v0'']),
        [CallNewMultiaddr ''/ip4/127.0.0.1/tcp/5001'', CallResolve ''/ip4/127.0.0.1/tcp/5001'',
         CallDialArgs ''/ip4/127.0.0.1/tcp/5001''])
   \<and> ClientWithFallback (NewExecutor 0)
       \<notin> set [ClientWithAPIPrefix ''/api/v0'']"
  using makeExecutor_fallback [OF ex_remote(1) ex_api(1)]
    makeExecutor_fallback [OF ex_remote(2) ex_api(2)] ex_remote
  by (simp add: exDeps_def exReq_def)

section \<open>Address resolution\<close>

text \<open>
  Claim C7. \<^verbatim>\<open>resolveAddr\<close> returns the resolver's error when the resolver fails, the
  error \<^verbatim>\<open>non-resolvable API endpoint\<close> when the resolver answers with no address, and
  otherwise the first address of the answer; the resolver is called once.
\<close>

theorem resolveAddr_first_candidate:
  "(\<forall>err. Resolve d addr = Inl err \<longrightarrow> fst (resolveAddr d addr) = Inl err)
   \<and> (Resolve d addr = Inr [] \<longrightarrow>
        fst (resolveAddr d addr) = Inl (ErrorString ''non-resolvable API endpoint''))
   \<and> (\<forall>a as. Resolve d addr = Inr (a # as) \<longrightarrow> fst (resolveAddr d addr) = Inr a)
   \<and> snd (resolveAddr d addr) = [CallResolve addr]"
  by (auto simp: resolveAddr_def split: sum.splits)

text \<open>The theorem at example inputs.\<close>

theorem resolveAddr_first_candidate_witness:
  "fst (resolveAddr exDeps ''/dns4/down/tcp/1'') = Inl (ErrorString ''lookup failed'')
   \<and> fst (resolveAddr exDeps ''/dns4/none/tcp/1'') = Inl (ErrorString ''non-resolvable API endpoint'')
   \<and> fst (resolveAddr exDeps ''/dns4/two/tcp/1'') = Inr ''/ip4/10.0.0.2/tcp/1''"
  using resolveAddr_first_candidate [of exDeps "''/dns4/down/tcp/1''"]
    resolveAddr_first_candidate [of exDeps "''/dns4/none/tcp/1''"]
    resolveAddr_first_candidate [of exDeps "''/dns4/two/tcp/1''"]
  by (simp add: exDeps_def)

section \<open>The transport of the client\<close>

text \<open>
  Claim C8. When \<^verbatim>\<open>makeExecutor\<close> has an address (from the request, or else from the API
  file), has resolved it to \<open>r\<close>, and \<^verbatim>\<open>manet.DialArgs\<close> of \<open>r\<close> gives \<open>network\<close> and
  \<open>host\<close>: a client is built for the networks \<^verbatim>\<open>tcp\<close>, \<^verbatim>\<open>tcp4\<close>, \<^verbatim>\<open>tcp6\<close> and
  \<^verbatim>\<open>unix\<close> only; for any other network the result is the error
  \<^verbatim>\<open>unsupported API address\<close> followed by \<open>r\<close>. For a TCP network the host of the
  client is \<open>host\<close> and no HTTP client is set. For \<^verbatim>\<open>unix\<close> the host of the client is
  the label \<^verbatim>\<open>unix\<close> and the one HTTP client set dials the socket path \<open>host\<close>,
  whatever network and address it is asked for.
\<close>

theorem makeExecutor_transport:
  assumes "\<not> (cannotRunOnClient (commandDetails (cmdDetailsMap d) (Path req))
       \<and> cannotRunOnDaemon (commandDetails (cmdDetailsMap d) (Path req)))"
    and "\<not> (\<not> cannotRunOnClient (commandDetails (cmdDetailsMap d) (Path req))
       \<and> doesNotUseRepo (commandDetails (cmdDetailsMap d) (Path req)))"
    and "\<not> (cannotRunOnDaemon (commandDetails (cmdDetailsMap d) (Path req))
       \<or> External d (Command req))"
    and "fst (apiAddrOption d req) = Inr apiAddr"
    and "apiAddr = Some a0 \<or> (apiAddr = None \<and> APIAddr d (ConfigRoot cctx) = Inr a0)"
    and "Resolve d a0 = Inr (r # rs)"
    and "DialArgs d r = Inr (network, host)"
  shows "(network = ''tcp'' \<or> network = ''tcp4'' \<or> network = ''tcp6'' \<longrightarrow>
      (\<exists>opts. fst (makeExecutor d req cctx) = Inr (NewClient host opts)
             \<and> (\<forall>c. ClientWithHTTPClient c \<notin> set opts)))
   \<and> (network = ''unix'' \<longrightarrow>
      (\<exists>opts dial. fst (makeExecutor d req cctx) = Inr (NewClient ''unix'' opts)
             \<and> (\<forall>c. ClientWithHTTPClient c \<in> set opts \<longleftrightarrow> c = HTTPClient dial)
             \<and> (\<forall>n a. dial n a = (''unix'', host))))
   \<and> (network \<noteq> ''tcp'' \<and> network \<noteq> ''tcp4'' \<and> network \<noteq> ''tcp6'' \<and> network \<noteq> ''unix'' \<longrightarrow>
      fst (makeExecutor d req cctx)
        = Inl (ErrorString (''unsupported API address: '' @ r)))"
proof -
  have "fst (makeExecutor d req cctx)
     = fst (newClient d cctx (NewExecutor (Root req))
              (apiAddr \<noteq> None \<and> Command req \<noteq> daemonCmd d) r network host)"
    using makeExecutor_dialDaemon [OF assms(1-5)] dialDaemon_newClient [OF assms(6,7)]
    by simp
  then show ?thesis
    using newClient_switch [of network d cctx "NewExecutor (Root req)"
        "apiAddr \<noteq> None \<and> Command req \<noteq> daemonCmd d" r host]
    by simp
qed

text \<open>
  The theorem at example inputs: a TCP address found in the API file, a unix socket
  and a UDP address given with the request.
\<close>

theorem makeExecutor_transport_witness:
  "(\<exists>opts. fst (makeExecutor exDeps (exReq [''swarm'', ''peers''] None 3)
                  \<lparr>ConfigRoot = ''/repo''\<rparr>)
            = Inr (NewClient ''127.0.0.1:5001'' opts)
          \<and> (\<forall>c. ClientWithHTTPClient c \<notin> set opts))
   \<and> (\<exists>opts dial. fst (makeExecutor exDeps
                  (exReq [''swarm'', ''peers''] (Some ''/unix/run/api.sock'') 3)
                  \<lparr>ConfigRoot = ''/repo''\<rparr>)
            = Inr (NewClient ''unix'' opts)
          \<and> (\<forall>c. ClientWithHTTPClient c \<in> set opts \<longleftrightarrow> c = HTTPClient dial)
          \<and> (\<forall>n a. dial n a = (''unix'', ''/run/api.sock'')))
   \<and> fst (makeExecutor exDeps
            (exReq [''swarm'', ''peers''] (Some ''/ip4/127.0.0.1/udp/5001'') 3)
            \<lparr>ConfigRoot = ''/repo''\<rparr>)
       = Inl (ErrorString ''unsupported API address: /ip4/127.0.0.1/udp/5001'')"
  using makeExecutor_transport [of exDeps "exReq [''swarm'', ''peers''] None 3" None
      "''/ip4/127.0.0.1/tcp/5001''" "\<lparr>ConfigRoot = ''/repo''\<rparr>"
      "''/ip4/127.0.0.1/tcp/5001''" "[]" "''tcp4''" "''127.0.0.1:5001''"]
    makeExecutor_transport [of exDeps
      "exReq [''swarm'', ''peers''] (Some ''/unix/run/api.sock'') 3"
      "Some ''/unix/run/api.sock''" "''/unix/run/api.sock''" "\<lparr>ConfigRoot = ''/repo''\<rparr>"
      "''/unix/run/api.sock''" "[]" "''unix''" "''/run/api.sock''"]
    makeExecutor_transport [of exDeps
      "exReq [''swarm'', ''peers''] (Some ''/ip4/127.0.0.1/udp/5001'') 3"
      "Some ''/ip4/127.0.0.1/udp/5001''" "''/ip4/127.0.0.1/udp/5001''"
      "\<lparr>ConfigRoot = ''/repo''\<rparr>"
      "''/ip4/127.0.0.1/udp/5001''" "[]" "''udp4''" "''127.0.0.1:5001''"]
  by (simp add: exDeps_def exReq_def apiAddrOption_def ex_details)

section \<open>Rewriting of the arguments\<close>

text \<open>The claim as stated, refuted at an example input.\<close>

theorem command_args_rewrite_counterexample:
  "command_args [''ipfs'', ''help'', ''--help''] = Some [''ipfs'', ''--help'']
   \<and> command_args [''ipfs'', ''help'', ''--help''] \<noteq> Some [''ipfs'', ''help'', ''--help'']"
  by (simp add: command_args_def)

text \<open>
  Claim C9, as amended. \<^verbatim>\<open>--version\<close> as the first user argument becomes \<^verbatim>\<open>version\<close>;
  \<^verbatim>\<open>help c ...\<close> with \<open>c\<close> other than \<^verbatim>\<open>--help\<close> becomes \<^verbatim>\<open>c ... --help\<close>; \<^verbatim>\<open>help\<close>
  alone becomes \<^verbatim>\<open>--help\<close>; \<^verbatim>\<open>help --help ...\<close> becomes \<^verbatim>\<open>--help ...\<close>: the word
  \<^verbatim>\<open>help\<close> is dropped and nothing is appended; and the first argument of a non-empty
  list becomes \<^verbatim>\<open>ipfs\<close>. As stated, with \<^verbatim>\<open>help --help\<close> left untouched, the claim
  fails.
\<close>

theorem command_args_rewrite:
  "command_args (p # ''--version'' # rest) = Some (''ipfs'' # ''version'' # rest)
   \<and> (c \<noteq> ''--help'' \<longrightarrow>
        command_args (p # ''help'' # c # rest) = Some (''ipfs'' # c # rest @ [''--help'']))
   \<and> command_args [p, ''help''] = Some [''ipfs'', ''--help'']
   \<and> command_args (p # ''help'' # ''--help'' # rest) = Some (''ipfs'' # ''--help'' # rest)
   \<and> (args \<noteq> [] \<longrightarrow> (\<exists>rest'. command_args args = Some (''ipfs'' # rest')))"
proof (intro conjI impI)
  show "command_args (p # ''--version'' # rest) = Some (''ipfs'' # ''version'' # rest)"
    by (simp add: command_args_def)
  show "command_args (p # ''help'' # c # rest) = Some (''ipfs'' # c # rest @ [''--help''])"
    if "c \<noteq> ''--help''" using that by (simp add: command_args_def)
  show "command_args [p, ''help''] = Some [''ipfs'', ''--help'']"
    by (simp add: command_args_def)
  show "command_args (p # ''help'' # ''--help'' # rest) = Some (''ipfs'' # ''--help'' # rest)"
    by (simp add: command_args_def)
  show "\<exists>rest'. command_args args = Some (''ipfs'' # rest')" if "args \<noteq> []"
  proof -
    from that obtain a as where "args = a # as" by (cases args) auto
    then show ?thesis
      by (cases as; cases "tl as") (auto simp: command_args_def Let_def)
  qed
qed

text \<open>The theorem at example inputs.\<close>

theorem command_args_rewrite_witness:
  "command_args [''/usr/bin/ipfs'', ''help'', ''add''] = Some [''ipfs'', ''add'', ''--help'']
   \<and> (\<exists>rest'. command_args [''/usr/bin/ipfs'', ''add'', ''f''] = Some (''ipfs'' # rest'))"
  using command_args_rewrite [of "''/usr/bin/ipfs''" "[]" "''add''" "[''/usr/bin/ipfs'', ''add'', ''f'']"]
  by simp

section \<open>A malformed API option\<close>

text \<open>
  Claim C10. When the API option is a string that the multiaddr parser rejects,
  \<^verbatim>\<open>makeExecutor\<close> returns the parser's error, after that one call, for a command that
  passes the disabled check and does not take the fast path; for a command on the fast
  path the option is never parsed and the local executor is returned; for a disabled
  command the error is \<^verbatim>\<open>command disabled\<close>.
\<close>

theorem makeExecutor_bad_api_option:
  assumes "Options req (ApiOption d) = Some (OptString s)"
    and "NewMultiaddr d s = Inl err"
  shows "(\<not> (cannotRunOnClient (commandDetails (cmdDetailsMap d) (Path req))
             \<and> cannotRunOnDaemon (commandDetails (cmdDetailsMap d) (Path req)))
          \<and> \<not> (\<not> cannotRunOnClient (commandDetails (cmdDetailsMap d) (Path req))
             \<and> doesNotUseRepo (commandDetails (cmdDetailsMap d) (Path req)))
          \<longrightarrow> makeExecutor d req cctx = (Inl err, [CallNewMultiaddr s]))
     \<and> (\<not> cannotRunOnClient (commandDetails (cmdDetailsMap d) (Path req))
          \<and> doesNotUseRepo (commandDetails (cmdDetailsMap d) (Path req))
          \<longrightarrow> makeExecutor d req cctx = (Inr (NewExecutor (Root req)), []))
     \<and> (cannotRunOnClient (commandDetails (cmdDetailsMap d) (Path req))
          \<and> cannotRunOnDaemon (commandDetails (cmdDetailsMap d) (Path req))
          \<longrightarrow> makeExecutor d req cctx =
              (Inl (ErrorString (''command disabled: '' @ fmt_v (Path req))), []))"
proof -
  from assms have "apiAddrOption d req = (Inl err, [CallNewMultiaddr s])"
    by (simp add: apiAddrOption_def)
  then show ?thesis by (auto simp: makeExecutor_def Let_def)
qed

text \<open>The theorem at example inputs.\<close>

theorem makeExecutor_bad_api_option_witness:
  "makeExecutor exDeps (exReq [''swarm'', ''peers''] (Some ''localhost:5001'') 3)
       \<lparr>ConfigRoot = ''/repo''\<rparr>
     = (Inl (ErrorString ''invalid multiaddr, must begin with /''),
        [CallNewMultiaddr ''localhost:5001''])
   \<and> makeExecutor exDeps (exReq [''version''] (Some ''localhost:5001'') 3)
       \<lparr>ConfigRoot = ''/repo''\<rparr>
     = (Inr (NewExecutor 0), [])
   \<and> makeExecutor exDeps (exReq [''off''] (Some ''localhost:5001'') 3)
       \<lparr>ConfigRoot = ''/repo''\<rparr>
     = (Inl (ErrorString ''command disabled: [off]''), [])"
  using makeExecutor_bad_api_option [of "exReq [''swarm'', ''peers''] (Some ''localhost:5001'') 3"
      exDeps "''localhost:5001''" "ErrorString ''invalid multiaddr, must begin with /''"
      "\<lparr>ConfigRoot = ''/repo''\<rparr>"]
    makeExecutor_bad_api_option [of "exReq [''version''] (Some ''localhost:5001'') 3"
      exDeps "''localhost:5001''" "ErrorString ''invalid multiaddr, must begin with /''"
      "\<lparr>ConfigRoot = ''/repo''\<rparr>"]
    makeExecutor_bad_api_option [of "exReq [''off''] (Some ''localhost:5001'') 3"
      exDeps "''localhost:5001''" "ErrorString ''invalid multiaddr, must begin with /''"
      "\<lparr>ConfigRoot = ''/repo''\<rparr>"]
  by (simp add: exDeps_def exReq_def fmt_v_def ex_details)

end
